theory Spec2Isabelle
  imports Complex_Main "HOL-Library.Multiset"
begin

section \<open>Wavelength calibration of an MKID array: the per-pixel fit engine\<close>

text \<open>
  A shallow embedding of the parts of \<^verbatim>\<open>mkidpipeline/calibration/wavecal.py\<close> that build
  the phase histograms, select histogram models and fit the phase-energy calibration.
  NumPy floats are modelled as \<^typ>\<open>real\<close> (rounding is not modelled), arrival times as
  \<^typ>\<open>int\<close> (microsecond ticks), exceptions as values of \<open>py_error\<close>.
\<close>

subsection \<open>Data\<close>

datatype py_error = IndexError | KeyError | ValueError | TypeError | AttributeError | RuntimeError

text \<open>One record of the photon list: the fields \<^verbatim>\<open>'Time'\<close> and \<^verbatim>\<open>'Wavelength'\<close>
  (the raw phase height before calibration) of the structured array.\<close>

record photon =
  Time :: int
  Wavelength :: real

subsection \<open>\<^verbatim>\<open>Calibrator._remove_tail_riding_photons\<close>\<close>

text \<open>
  \<^verbatim>\<open>
  indices = np.argsort(photon_list['Time'])
  photon_list = photon_list[indices]
  logic = np.hstack([True, np.diff(photon_list['Time']) > self.cfg.dt])
  photon_list = photon_list[logic]
  \<close>
  \<open>np.argsort\<close> leaves the order of events with equal times open; the model sorts
  stably. \<open>np_diff\<close> is \<open>np.diff\<close>: the differences of neighbours. The mask has one
  entry more than \<open>np.diff\<close> returns, so on an empty photon list it has length 1 and the
  boolean indexing of a length-0 array raises \<open>IndexError\<close>.
\<close>

fun np_diff :: "'a::minus list \<Rightarrow> 'a list" where
  "np_diff (a # b # xs) = (b - a) # np_diff (b # xs)"
| "np_diff xs = []"

definition tail_logic :: "real \<Rightarrow> photon list \<Rightarrow> bool list" where
  "tail_logic dt photon_list = True # map (\<lambda>d. real_of_int d > dt) (np_diff (map Time photon_list))"

definition bool_index :: "'a list \<Rightarrow> bool list \<Rightarrow> py_error + 'a list" where
  "bool_index xs logic =
     (if length logic \<noteq> length xs then Inl IndexError
      else Inr (map fst (filter snd (zip xs logic))))"

definition remove_tail_riding_photons :: "real \<Rightarrow> photon list \<Rightarrow> py_error + photon list" where
  "remove_tail_riding_photons dt photon_list =
     (let sorted_list = sort_key Time photon_list
      in bool_index sorted_list (tail_logic dt sorted_list))"

text \<open>The rule as the specification words it: an event is kept when its gap to the
  previous \<^emph>\<open>kept\<close> event exceeds \<open>dt\<close>; the first event is always kept.\<close>

fun keep_after_kept :: "real \<Rightarrow> int \<Rightarrow> photon list \<Rightarrow> photon list" where
  "keep_after_kept dt last_kept [] = []"
| "keep_after_kept dt last_kept (p # ps) =
     (if real_of_int (Time p - last_kept) > dt then p # keep_after_kept dt (Time p) ps
      else keep_after_kept dt last_kept ps)"

definition spec_remove_tail_riding :: "real \<Rightarrow> photon list \<Rightarrow> photon list" where
  "spec_remove_tail_riding dt photon_list =
     (case sort_key Time photon_list of
        [] \<Rightarrow> []
      | p # ps \<Rightarrow> p # keep_after_kept dt (Time p) ps)"

text \<open>What the code keeps, index by index: position 0 of the sorted list, and every
  position whose gap to the position just before it exceeds \<open>dt\<close>.\<close>

definition kept_positions :: "real \<Rightarrow> photon list \<Rightarrow> nat list" where
  "kept_positions dt s =
     filter (\<lambda>i. i = 0 \<or> real_of_int (Time (s ! i) - Time (s ! (i - 1))) > dt) [0..<length s]"

subsection \<open>\<^verbatim>\<open>Calibrator._histogram\<close>\<close>

text \<open>
  \<open>np.arange(start, stop, step)\<close> on floats has \<open>ceil((stop - start) / step)\<close> entries
  (none when that is negative), the entry \<open>i\<close> being \<open>start + i * step\<close>; a zero step is
  refused with \<open>ValueError\<close>.
\<close>

definition arange :: "real \<Rightarrow> real \<Rightarrow> real \<Rightarrow> py_error + real list" where
  "arange start stop step =
     (if step = 0 then Inl ValueError
      else Inr (map (\<lambda>i. start + real i * step) [0..<nat \<lceil>(stop - start) / step\<rceil>]))"

text \<open>
  \<open>np.histogram(a, bins=edges)\<close> with explicit edges: bin \<open>j\<close> is the half-open interval
  from edge \<open>j\<close> to edge \<open>j + 1\<close>, the last bin includes its right edge; edges that decrease
  somewhere are refused with \<open>ValueError\<close>. Fewer than two edges give no bin at all.
\<close>

definition in_bin :: "real list \<Rightarrow> nat \<Rightarrow> real \<Rightarrow> bool" where
  "in_bin bins j v =
     (bins ! j \<le> v \<and> (if Suc (Suc j) = length bins then v \<le> bins ! Suc j else v < bins ! Suc j))"

definition np_histogram :: "real list \<Rightarrow> real list \<Rightarrow> py_error + nat list" where
  "np_histogram a bins =
     (if \<not> sorted bins then Inl ValueError
      else Inr (map (\<lambda>j. length (filter (in_bin bins j) a)) [0..<length bins - 1]))"

text \<open>\<open>np.min\<close> and \<open>np.max\<close> raise \<open>ValueError\<close> on an empty array.\<close>

fun np_min :: "real list \<Rightarrow> py_error + real" where
  "np_min [] = Inl ValueError"
| "np_min (v # vs) = Inr (fold min vs v)"

fun np_max :: "'a::linorder list \<Rightarrow> py_error + 'a" where
  "np_max [] = Inl ValueError"
| "np_max (v # vs) = Inr (fold max vs v)"

text \<open>
  One pass through the body of the \<^verbatim>\<open>while\<close> loop, for one bin width:
  \<^verbatim>\<open>
  bin_edges = np.arange(max_phase, min_phase - bin_width, -bin_width)[::-1]
  counts, x0 = np.histogram(phase_list, bins=bin_edges)
  centers = (x0[:-1] + x0[1:]) / 2.0
  max_count = np.max(counts)
  \<close>
\<close>

definition bin_centers :: "real list \<Rightarrow> real list" where
  "bin_centers x0 = map (\<lambda>(a, b). (a + b) / 2) (zip (butlast x0) (tl x0))"

definition histogram_attempt ::
  "real \<Rightarrow> real \<Rightarrow> real \<Rightarrow> real list \<Rightarrow> py_error + (real list \<times> nat list \<times> nat)" where
  "histogram_attempt min_phase max_phase bin_width phase_list =
     (case arange max_phase (min_phase - bin_width) (- bin_width) of
        Inl e \<Rightarrow> Inl e
      | Inr edges_down \<Rightarrow>
          (let bin_edges = rev edges_down in
           case np_histogram phase_list bin_edges of
             Inl e \<Rightarrow> Inl e
           | Inr counts \<Rightarrow>
               (case np_max counts of
                  Inl e \<Rightarrow> Inl e
                | Inr max_count \<Rightarrow> Inr (bin_centers bin_edges, counts, max_count))))"

text \<open>
  The loop
  \<^verbatim>\<open>
  while max_count < 400 and update < 3:
      bin_width = self.cfg.bin_width * (2 ** update)
      ...
      max_count = np.max(counts)
      update += 1
  return centers, counts
  \<close>
  as a recursive function on the loop variables. The last argument is not in the source:
  it records the bin width of every pass that was started, in order, so that the passes
  a call makes can be counted; it is returned beside the result (or the exception).
\<close>

function histogram_loop ::
  "real \<Rightarrow> real \<Rightarrow> real \<Rightarrow> real list \<Rightarrow> nat \<Rightarrow> nat \<Rightarrow> real list option \<Rightarrow> nat list option
     \<Rightarrow> real list \<Rightarrow> real list \<times> (py_error + real list option \<times> nat list option)" where
  "histogram_loop cfg_width min_phase max_phase phase_list max_count update centers counts widths =
     (if max_count < 400 \<and> update < 3 then
        (case histogram_attempt min_phase max_phase (cfg_width * 2 ^ update) phase_list of
           Inl e \<Rightarrow> (widths @ [cfg_width * 2 ^ update], Inl e)
         | Inr (centers', counts', max_count') \<Rightarrow>
             histogram_loop cfg_width min_phase max_phase phase_list max_count' (update + 1)
               (Some centers') (Some counts') (widths @ [cfg_width * 2 ^ update]))
      else (widths, Inr (centers, counts)))"
  by pat_completeness auto
termination
  by (relation "measure (\<lambda>(w, mn, mx, pl, mc, update, r). 3 - update)") auto

definition histogram_trace ::
  "real \<Rightarrow> real list \<Rightarrow> real list \<times> (py_error + real list option \<times> nat list option)" where
  "histogram_trace cfg_width phase_list =
     (case np_min phase_list of
        Inl e \<Rightarrow> ([], Inl e)
      | Inr min_phase \<Rightarrow>
          (case np_max phase_list of
             Inl e \<Rightarrow> ([], Inl e)
           | Inr max_phase \<Rightarrow>
               histogram_loop cfg_width min_phase max_phase phase_list 0 0 None None []))"

definition histogram :: "real \<Rightarrow> real list \<Rightarrow> py_error + real list option \<times> nat list option" where
  "histogram cfg_width phase_list = snd (histogram_trace cfg_width phase_list)"

subsection \<open>Fit models and the configuration\<close>

text \<open>
  The model classes live in \<^verbatim>\<open>wavecal_models\<close>, which is not embedded here.
  What the calibration code reads from a fitted model is kept as data: the fit result's
  \<open>aic\<close> and \<open>success\<close> (the optimiser converged), the answer of
  \<^verbatim>\<open>has_good_solution()\<close> for a model holding that result (\<open>good\<close>), and for a
  histogram fit the values of \<^verbatim>\<open>signal_center.value\<close>, \<^verbatim>\<open>signal_center.stderr\<close>
  and \<^verbatim>\<open>signal_sigma.value\<close>. A model class is named by its class name. The fields of
  a model are prefixed (\<open>h_x\<close> for \<^verbatim>\<open>model.x\<close> of a histogram model, \<open>c_x\<close> for a
  calibration model) since \<open>x\<close> and \<open>y\<close> would be taken for variables.
\<close>

record fit_result =
  aic :: real
  success :: bool
  good :: bool

type_synonym params = "(string \<times> real) list"

record histogram_fit = fit_result +
  fit_params :: params
  signal_center_value :: real
  signal_center_stderr :: real
  signal_sigma_value :: real

record histogram_model =
  h_class :: string
  h_pixel :: "nat \<times> nat"
  h_res_id :: nat
  h_flag :: int
  h_x :: "real list option"
  h_y :: "nat list option"
  h_variance :: "real list option"
  h_best_fit_result :: "histogram_fit option"

record calibration_model =
  c_class :: string
  c_pixel :: "nat \<times> nat"
  c_res_id :: nat
  c_flag :: int
  c_x :: "real list option"
  c_y :: "real list option"
  c_variance :: "real list option"
  c_min_x :: "real option"
  c_max_x :: "real option"
  c_best_fit_result :: "fit_result option"

text \<open>Modelled from the spec: \<^verbatim>\<open>model.has_good_solution()\<close> is a method of
  \<^verbatim>\<open>wavecal_models\<close>. A good solution is a fit that converged and passed the model's
  validation; the verdict is recorded with the fit result (\<open>good\<close>), and a model that
  holds no fit result has no good solution.\<close>

definition has_good_solution :: "histogram_model \<Rightarrow> bool" where
  "has_good_solution m = (case h_best_fit_result m of None \<Rightarrow> False | Some r \<Rightarrow> good r)"

definition has_good_calibration :: "calibration_model \<Rightarrow> bool" where
  "has_good_calibration m = (case c_best_fit_result m of None \<Rightarrow> False | Some r \<Rightarrow> good r)"

record configuration =
  cfg_wavelengths :: "real list"
  cfg_bin_width :: real
  cfg_dt :: real
  cfg_histogram_fit_attempts :: nat
  cfg_histogram_model_names :: "string list"
  cfg_calibration_model_names :: "string list"

subsection \<open>\<^verbatim>\<open>Calibrator.make_histograms\<close>, for one pixel\<close>

text \<open>
  \<^verbatim>\<open>
  rate = (len(photon_list['Wavelength']) * 1e6 /
          (max(photon_list['Time']) - min(photon_list['Time'])))
  if rate > 2000:
  \<close>
  The times are NumPy scalars: when all events share one time the division by zero gives
  \<open>inf\<close> (a warning, no exception), which exceeds 2000. HOL's \<open>x / 0 = 0\<close> would hide
  that, so the case is written out.
\<close>

definition too_hot :: "photon list \<Rightarrow> bool" where
  "too_hot photon_list =
     (let span = Max (set (map Time photon_list)) - Min (set (map Time photon_list))
      in if span = 0 then True
         else real (length photon_list) * 1000000 / real_of_int span > 2000)"

text \<open>The body of the loop over the wavelengths, for one wavelength: the photon list read
  from that wavelength's file and the model stored for it.\<close>

definition make_histogram ::
  "configuration \<Rightarrow> photon list \<Rightarrow> histogram_model \<Rightarrow> py_error + histogram_model" where
  "make_histogram cfg photon_list model =
     (if length photon_list < 2 then Inr (model\<lparr>h_flag := 1\<rparr>)
      else if too_hot photon_list then Inr (model\<lparr>h_flag := 2\<rparr>)
      else
        (case remove_tail_riding_photons (cfg_dt cfg) photon_list of
           Inl e \<Rightarrow> Inl e
         | Inr kept \<Rightarrow>
             if length kept = 0 then Inr (model\<lparr>h_flag := 3\<rparr>)
             else
               (let phase_list = filter (\<lambda>v. v < 0) (map Wavelength kept) in
                if length phase_list = 0 then Inr (model\<lparr>h_flag := 4\<rparr>)
                else
                  (case histogram (cfg_bin_width cfg) phase_list of
                     Inl e \<Rightarrow> Inl e
                   | Inr (centers, counts) \<Rightarrow>
                       (case counts of
                          None \<Rightarrow> Inl TypeError
                        | Some cs \<Rightarrow>
                            Inr (model\<lparr>h_x := centers, h_y := counts,
                                   h_variance :=
                                     Some (map (\<lambda>c. sqrt ((real c)\<^sup>2 + 0.25) - 0.5) cs)\<rparr>))))))"

text \<open>
  \<^verbatim>\<open>for index, wavelength in enumerate(wavelengths)\<close>: the models of the pixel are
  updated in the order of the wavelengths; an exception ends the run (it is logged and
  raised again).
\<close>

fun make_histograms ::
  "configuration \<Rightarrow> photon list list \<Rightarrow> histogram_model list \<Rightarrow> py_error + histogram_model list" where
  "make_histograms cfg (pl # pls) (m # ms) =
     (case make_histogram cfg pl m of
        Inl e \<Rightarrow> Inl e
      | Inr m' \<Rightarrow>
          (case make_histograms cfg pls ms of
             Inl e \<Rightarrow> Inl e
           | Inr ms' \<Rightarrow> Inr (m' # ms')))"
| "make_histograms cfg pls ms = Inr []"

subsection \<open>\<^verbatim>\<open>Calibrator.fit_calibrations\<close>, for one pixel\<close>

text \<open>
  What \<^verbatim>\<open>wavecal_models\<close> does for a calibration model is a parameter: \<open>cl_new\<close> is the
  constructor \<^verbatim>\<open>calibration_model_class(pixel=..., res_id=...)\<close>, and \<open>cl_fit\<close> gives the
  result that \<^verbatim>\<open>model.fit(model.guess())\<close> stores in the model.
\<close>

record calibration_layer =
  cl_new :: "string \<Rightarrow> nat \<times> nat \<Rightarrow> nat \<Rightarrow> calibration_model"
  cl_fit :: "calibration_model \<Rightarrow> fit_result"

text \<open>
  \<^verbatim>\<open>
  for index, wavelength in enumerate(wavelengths):
      if good[index]:
          histogram_model = histogram_models[index]
          phases.append(histogram_model.signal_center.value)
          variance.append(histogram_model.signal_center.stderr**2)
          energies.append(h.to('eV s').value * c.to('nm/s').value / wavelength)
          sigmas.append(histogram_model.signal_sigma.value)
  \<close>
  The wavelengths with a good histogram fit, each with its fit result; \<open>hc\<close> is the
  product of the two constants.
\<close>

definition good_fits :: "real list \<Rightarrow> histogram_model list \<Rightarrow> (real \<times> histogram_fit) list" where
  "good_fits wavelengths histogram_models =
     List.map_filter
       (\<lambda>(wavelength, m).
          case h_best_fit_result m of
            None \<Rightarrow> None
          | Some r \<Rightarrow> if good r then Some (wavelength, r) else None)
       (zip wavelengths histogram_models)"

definition calibration_phases :: "(real \<times> histogram_fit) list \<Rightarrow> real list" where
  "calibration_phases gf = map (\<lambda>(wavelength, r). signal_center_value r) gf"

definition calibration_variance :: "(real \<times> histogram_fit) list \<Rightarrow> real list" where
  "calibration_variance gf = map (\<lambda>(wavelength, r). (signal_center_stderr r)\<^sup>2) gf"

definition calibration_energies :: "real \<Rightarrow> (real \<times> histogram_fit) list \<Rightarrow> real list" where
  "calibration_energies hc gf = map (\<lambda>(wavelength, r). hc / wavelength) gf"

definition calibration_sigmas :: "(real \<times> histogram_fit) list \<Rightarrow> real list" where
  "calibration_sigmas gf = map (\<lambda>(wavelength, r). signal_sigma_value r) gf"

text \<open>\<open>np.argmin\<close> and \<open>np.argmax\<close>: the first index of the least (largest) entry. They
  are used on non-empty arrays only.\<close>

definition np_argmin :: "real list \<Rightarrow> nat" where
  "np_argmin xs = length (takeWhile (\<lambda>v. v \<noteq> fold min (tl xs) (hd xs)) xs)"

definition np_argmax :: "real list \<Rightarrow> nat" where
  "np_argmax xs = length (takeWhile (\<lambda>v. v \<noteq> fold max (tl xs) (hd xs)) xs)"

text \<open>
  \<^verbatim>\<open>
  if variance:
      model.x = np.array(phases)
      model.y = np.array(energies)
      model.variance = np.array(variance)
      arg_min = np.argmin(model.x)
      arg_max = np.argmax(model.x)
      model.min_x = model.x[arg_min] - 3 * np.sqrt(sigmas[arg_min])
      model.max_x = model.x[arg_max] + 3 * np.sqrt(sigmas[arg_max])
  \<close>
  (\<open>np.sqrt\<close> of a negative number is \<open>nan\<close>; \<^const>\<open>sqrt\<close> agrees with it on the
  non-negative numbers only.)
\<close>

definition give_data ::
  "calibration_model \<Rightarrow> real list \<Rightarrow> real list \<Rightarrow> real list \<Rightarrow> real list \<Rightarrow> calibration_model" where
  "give_data model phases energies variance sigmas =
     (if variance \<noteq> [] then
        model\<lparr>c_x := Some phases, c_y := Some energies, c_variance := Some variance,
              c_min_x := Some (phases ! np_argmin phases - 3 * sqrt (sigmas ! np_argmin phases)),
              c_max_x := Some (phases ! np_argmax phases + 3 * sqrt (sigmas ! np_argmax phases))\<rparr>
      else model)"

text \<open>
  \<^verbatim>\<open>
  diff = np.diff(phases)
  sigma = np.sqrt(variance)
  if (diff < -4 * (sigma[:-1] + sigma[1:])).any():
      model.flag = 12
  \<close>
\<close>

definition not_monotonic_enough :: "real list \<Rightarrow> real list \<Rightarrow> bool" where
  "not_monotonic_enough phases variance =
     (let diff = np_diff phases; sigma = map sqrt variance
      in list_ex (\<lambda>(d, s). d < - 4 * s)
           (zip diff (map (\<lambda>(a, b). a + b) (zip (butlast sigma) (tl sigma)))))"

definition flag_not_monotonic :: "calibration_model \<Rightarrow> real list \<Rightarrow> real list \<Rightarrow> calibration_model" where
  "flag_not_monotonic model phases variance =
     (if not_monotonic_enough phases variance then model\<lparr>c_flag := 12\<rparr> else model)"

text \<open>\<^verbatim>\<open>Calibrator._update_calibration_model\<close>: a new model of the class takes the place of
  the stored one and gets its data and domain.\<close>

definition update_calibration_model ::
  "calibration_layer \<Rightarrow> string \<Rightarrow> calibration_model \<Rightarrow> calibration_model" where
  "update_calibration_model layer cls model =
     (cl_new layer cls (c_pixel model) (c_res_id model))
       \<lparr>c_x := c_x model, c_y := c_y model, c_variance := c_variance model,
        c_min_x := c_min_x model, c_max_x := c_max_x model\<rparr>"

text \<open>
  \<^verbatim>\<open>
  for calibration_model in self.solution.calibration_model_list:
      if not isinstance(model, calibration_model):
          model = self._update_calibration_model(calibration_model, pixel)
      guess = model.guess()
      model.fit(guess)
      tried_models.append(model.copy())
  \<close>
  \<open>isinstance\<close> is taken as equality of the class names (no configured class is a
  subclass of another).
\<close>

fun try_calibration_models ::
  "calibration_layer \<Rightarrow> string list \<Rightarrow> calibration_model \<Rightarrow> calibration_model list
     \<Rightarrow> calibration_model list" where
  "try_calibration_models layer [] model tried_models = tried_models"
| "try_calibration_models layer (cls # rest) model tried_models =
     (let model1 = (if c_class model \<noteq> cls then update_calibration_model layer cls model else model);
          model2 = model1\<lparr>c_best_fit_result := Some (cl_fit layer model1)\<rparr>
      in try_calibration_models layer rest model2 (tried_models @ [model2]))"

text \<open>\<^verbatim>\<open>Calibrator._assign_best_calibration_model\<close>; the result is the model that is stored.\<close>

fun best_calibration_loop ::
  "calibration_model \<Rightarrow> calibration_model \<Rightarrow> calibration_model list
     \<Rightarrow> py_error + calibration_model \<times> calibration_model" where
  "best_calibration_loop best_model lowest_aic_model [] = Inr (best_model, lowest_aic_model)"
| "best_calibration_loop best_model lowest_aic_model (model # rest) =
     (case c_best_fit_result model of
        None \<Rightarrow> Inl AttributeError
      | Some rm \<Rightarrow>
          (case c_best_fit_result best_model of
             None \<Rightarrow> Inl AttributeError
           | Some rb \<Rightarrow>
               (let lower_aic = aic rm < aic rb; good_fit = has_good_calibration model
                in best_calibration_loop
                     (if lower_aic \<and> good_fit then model else best_model)
                     (if lower_aic then model else lowest_aic_model) rest)))"

definition assign_best_calibration_model :: "calibration_model list \<Rightarrow> py_error + calibration_model" where
  "assign_best_calibration_model tried_models =
     (case tried_models of
        [] \<Rightarrow> Inl IndexError
      | first # rest \<Rightarrow>
          (case best_calibration_loop first first rest of
             Inl e \<Rightarrow> Inl e
           | Inr (best_model, lowest_aic_model) \<Rightarrow>
               if has_good_calibration best_model then Inr (best_model\<lparr>c_flag := 10\<rparr>)
               else
                 (case c_best_fit_result lowest_aic_model of
                    None \<Rightarrow> Inl AttributeError
                  | Some r \<Rightarrow>
                      if \<not> success r then Inr (lowest_aic_model\<lparr>c_flag := 13\<rparr>)
                      else Inr (lowest_aic_model\<lparr>c_flag := 14\<rparr>))))"

text \<open>The body of the loop over the pixels: from the stored histogram models of the pixel
  and its stored calibration model to the calibration model stored afterwards.\<close>

definition fit_calibration ::
  "calibration_layer \<Rightarrow> real \<Rightarrow> configuration \<Rightarrow> histogram_model list \<Rightarrow> calibration_model
     \<Rightarrow> py_error + calibration_model" where
  "fit_calibration layer hc cfg histogram_models model =
     (let gf = good_fits (cfg_wavelengths cfg) histogram_models;
          phases = calibration_phases gf;
          variance = calibration_variance gf;
          model1 = give_data model phases (calibration_energies hc gf) variance (calibration_sigmas gf)
      in if length variance < 3 then Inr (model1\<lparr>c_flag := 11\<rparr>)
         else assign_best_calibration_model
                (try_calibration_models layer (cfg_calibration_model_names cfg)
                   (flag_not_monotonic model1 phases variance) []))"

subsection \<open>The histogram models of a pixel as objects\<close>

text \<open>
  \<^verbatim>\<open>fit_histograms\<close> keeps references to model objects while it replaces the models the
  solution stores, so the objects are modelled with an explicit store: \<open>heap\<close> holds every
  model object (its address is its index), and \<open>histograms\<close> is the array
  \<^verbatim>\<open>solution[pixel]['histograms']\<close>, one address for each configured wavelength.
\<close>

record pixel_store =
  heap :: "histogram_model list"
  histograms :: "nat list"

definition deref :: "pixel_store \<Rightarrow> nat \<Rightarrow> histogram_model" where
  "deref st a = heap st ! a"

definition new_object :: "histogram_model \<Rightarrow> pixel_store \<Rightarrow> nat \<times> pixel_store" where
  "new_object m st = (length (heap st), st\<lparr>heap := heap st @ [m]\<rparr>)"

definition update_object ::
  "nat \<Rightarrow> (histogram_model \<Rightarrow> histogram_model) \<Rightarrow> pixel_store \<Rightarrow> pixel_store" where
  "update_object a f st = st\<lparr>heap := (heap st)[a := f (heap st ! a)]\<rparr>"

text \<open>\<^verbatim>\<open>Solution.histogram_models(pixel=pixel)\<close> indexes the stored array with a boolean
  mask, which gives a new array of the same objects: the list of addresses.\<close>

definition stored_models :: "pixel_store \<Rightarrow> histogram_model list" where
  "stored_models st = map (deref st) (histograms st)"

text \<open>\<^verbatim>\<open>Solution.set_histogram_models(model, wavelength, pixel)\<close> puts the object into the
  stored array at the index of the wavelength.\<close>

definition set_histogram_model :: "nat \<Rightarrow> nat \<Rightarrow> pixel_store \<Rightarrow> pixel_store" where
  "set_histogram_model a wavelength_index st =
     st\<lparr>histograms := (histograms st)[wavelength_index := a]\<rparr>"

text \<open>Modelled from the spec: \<^verbatim>\<open>model.copy()\<close> is a method of \<^verbatim>\<open>wavecal_models\<close>; every
  attempted model instance is tracked with its fit result, so the copy is a new object
  with the state the model has at that moment.\<close>

definition copy_model :: "nat \<Rightarrow> pixel_store \<Rightarrow> nat \<times> pixel_store" where
  "copy_model a st = new_object (deref st a) st"

text \<open>
  What \<^verbatim>\<open>wavecal_models\<close> does for a histogram model is a parameter: the constructor
  \<^verbatim>\<open>histogram_model_class(pixel=..., res_id=...)\<close>, the class attribute
  \<^verbatim>\<open>max_parameters\<close>, the name of the signal-center parameter, \<^verbatim>\<open>model.guess(index)\<close>
  (\<open>None\<close> for a call without index), and the result \<^verbatim>\<open>model.fit(guess)\<close> stores in
  the model.
\<close>

record model_layer =
  ml_new :: "string \<Rightarrow> nat \<times> nat \<Rightarrow> nat \<Rightarrow> histogram_model"
  ml_max_parameters :: "string \<Rightarrow> nat"
  ml_signal_center_name :: "string \<Rightarrow> string"
  ml_guess :: "histogram_model \<Rightarrow> nat option \<Rightarrow> params"
  ml_fit :: "histogram_model \<Rightarrow> params \<Rightarrow> histogram_fit"

definition fit_model :: "model_layer \<Rightarrow> nat \<Rightarrow> params \<Rightarrow> pixel_store \<Rightarrow> pixel_store" where
  "fit_model layer a guess st =
     update_object a (\<lambda>m. m\<lparr>h_best_fit_result := Some (ml_fit layer m guess)\<rparr>) st"

text \<open>\<^verbatim>\<open>Calibrator._update_histogram_model\<close>: a new object of the class, with the data of
  the stored model, takes the place of the stored model.\<close>

definition update_histogram_model ::
  "model_layer \<Rightarrow> nat \<Rightarrow> string \<Rightarrow> pixel_store \<Rightarrow> nat \<times> pixel_store" where
  "update_histogram_model layer wavelength_index cls st =
     (let model = deref st (histograms st ! wavelength_index);
          (a, st1) = new_object
                       ((ml_new layer cls (h_pixel model) (h_res_id model))
                          \<lparr>h_x := h_x model, h_y := h_y model, h_variance := h_variance model\<rparr>) st
      in (a, set_histogram_model a wavelength_index st1))"

subsection \<open>\<^verbatim>\<open>Calibrator._guess\<close>\<close>

text \<open>The closest good solution at a shorter wavelength (the last good index before
  \<open>wavelength_index\<close>) and at a longer one (the first good index after it).\<close>

definition shorter_good_index :: "bool list \<Rightarrow> nat \<Rightarrow> nat option" where
  "shorter_good_index good_solutions wavelength_index =
     (case filter (\<lambda>i. good_solutions ! i) [0..<min wavelength_index (length good_solutions)] of
        [] \<Rightarrow> None
      | i # rest \<Rightarrow> Some (last (i # rest)))"

definition longer_good_index :: "bool list \<Rightarrow> nat \<Rightarrow> nat option" where
  "longer_good_index good_solutions wavelength_index =
     (case filter (\<lambda>i. good_solutions ! i) [Suc wavelength_index..<length good_solutions] of
        [] \<Rightarrow> None
      | i # rest \<Rightarrow> Some i)"

text \<open>\<^verbatim>\<open>neighbour.signal_center.value * wavelengths[index] / wavelengths[wavelength_index]\<close>;
  a model without fit result has no parameter to read. (The wavelengths are not zero.)\<close>

definition scaled_center :: "real list \<Rightarrow> histogram_model \<Rightarrow> nat \<Rightarrow> nat \<Rightarrow> py_error + real" where
  "scaled_center wavelengths neighbour index wavelength_index =
     (case h_best_fit_result neighbour of
        None \<Rightarrow> Inl AttributeError
      | Some r \<Rightarrow> Inr (signal_center_value r * wavelengths ! index / wavelengths ! wavelength_index))"

text \<open>The parameters of a neighbour other than its signal center, taken only when the
  neighbour has the class of the model.\<close>

definition other_guesses :: "model_layer \<Rightarrow> histogram_model \<Rightarrow> histogram_model \<Rightarrow> params" where
  "other_guesses layer neighbour model =
     (if h_class neighbour = h_class model then
        (case h_best_fit_result neighbour of
           None \<Rightarrow> []
         | Some r \<Rightarrow>
             filter (\<lambda>(name, v). name \<noteq> ml_signal_center_name layer (h_class neighbour))
               (fit_params r))
      else [])"

definition set_value :: "string \<Rightarrow> real \<Rightarrow> params \<Rightarrow> py_error + params" where
  "set_value name v g =
     (case map_of g name of
        None \<Rightarrow> Inl KeyError
      | Some old \<Rightarrow> Inr (map (\<lambda>(n, w). if n = name then (n, v) else (n, w)) g))"

definition merge_guesses :: "params \<Rightarrow> params \<Rightarrow> params \<Rightarrow> params" where
  "merge_guesses g shorter_guesses longer_guesses =
     map (\<lambda>(name, v).
            case map_of shorter_guesses name of
              Some sv \<Rightarrow>
                (case map_of longer_guesses name of
                   Some lv \<Rightarrow> (name, (lv + sv) / 2)
                 | None \<Rightarrow> (name, sv))
            | None \<Rightarrow>
                (case map_of longer_guesses name of
                   Some lv \<Rightarrow> (name, lv)
                 | None \<Rightarrow> (name, v))) g"

definition guess ::
  "model_layer \<Rightarrow> configuration \<Rightarrow> pixel_store \<Rightarrow> nat \<Rightarrow> bool list \<Rightarrow> py_error + params" where
  "guess layer cfg st wavelength_index good_solutions =
     (let wavelengths = cfg_wavelengths cfg;
          histogram_models = stored_models st;
          model = histogram_models ! wavelength_index;
          g = ml_guess layer model None;
          name = ml_signal_center_name layer (h_class model)
      in case shorter_good_index good_solutions wavelength_index of
           None \<Rightarrow>
             (case longer_good_index good_solutions wavelength_index of
                None \<Rightarrow> Inl RuntimeError
              | Some li \<Rightarrow>
                  (case scaled_center wavelengths (histogram_models ! li) li wavelength_index of
                     Inl e \<Rightarrow> Inl e
                   | Inr longer_center \<Rightarrow>
                       (case set_value name longer_center g of
                          Inl e \<Rightarrow> Inl e
                        | Inr g1 \<Rightarrow>
                            Inr (merge_guesses g1 []
                                   (other_guesses layer (histogram_models ! li) model)))))
         | Some si \<Rightarrow>
             (case scaled_center wavelengths (histogram_models ! si) si wavelength_index of
                Inl e \<Rightarrow> Inl e
              | Inr shorter_center \<Rightarrow>
                  (case longer_good_index good_solutions wavelength_index of
                     None \<Rightarrow>
                       (case set_value name shorter_center g of
                          Inl e \<Rightarrow> Inl e
                        | Inr g1 \<Rightarrow>
                            Inr (merge_guesses g1
                                   (other_guesses layer (histogram_models ! si) model) []))
                   | Some li \<Rightarrow>
                       (case scaled_center wavelengths (histogram_models ! li) li wavelength_index of
                          Inl e \<Rightarrow> Inl e
                        | Inr longer_center \<Rightarrow>
                            (case set_value name ((shorter_center + longer_center) / 2) g of
                               Inl e \<Rightarrow> Inl e
                             | Inr g1 \<Rightarrow>
                                 Inr (merge_guesses g1
                                        (other_guesses layer (histogram_models ! si) model)
                                        (other_guesses layer (histogram_models ! li) model)))))))"

subsection \<open>\<^verbatim>\<open>Calibrator._assign_best_histogram_model\<close>\<close>

text \<open>
  \<^verbatim>\<open>
  best_model = tried_models[0]
  lowest_aic_model = tried_models[0]
  for model in tried_models[1:]:
      lower_aic = model.best_fit_result.aic < best_model.best_fit_result.aic
      good_fit = model.has_good_solution()
      if lower_aic and good_fit:
          best_model = model
      if lower_aic:
          lowest_aic_model = model
  \<close>
  The tried models are objects of the heap, named by their addresses.
\<close>

fun best_histogram_loop ::
  "histogram_model list \<Rightarrow> nat \<Rightarrow> nat \<Rightarrow> nat list \<Rightarrow> py_error + nat \<times> nat" where
  "best_histogram_loop h best_model lowest_aic_model [] = Inr (best_model, lowest_aic_model)"
| "best_histogram_loop h best_model lowest_aic_model (model # rest) =
     (case h_best_fit_result (h ! model) of
        None \<Rightarrow> Inl AttributeError
      | Some rm \<Rightarrow>
          (case h_best_fit_result (h ! best_model) of
             None \<Rightarrow> Inl AttributeError
           | Some rb \<Rightarrow>
               (let lower_aic = aic rm < aic rb; good_fit = has_good_solution (h ! model)
                in best_histogram_loop h
                     (if lower_aic \<and> good_fit then model else best_model)
                     (if lower_aic then model else lowest_aic_model) rest)))"

definition assign_best_histogram_model ::
  "nat list \<Rightarrow> nat \<Rightarrow> pixel_store \<Rightarrow> py_error + pixel_store" where
  "assign_best_histogram_model tried_models wavelength_index st =
     (case tried_models of
        [] \<Rightarrow> Inl IndexError
      | first # rest \<Rightarrow>
          (case best_histogram_loop (heap st) first first rest of
             Inl e \<Rightarrow> Inl e
           | Inr (best_model, lowest_aic_model) \<Rightarrow>
               if has_good_solution (deref st best_model) then
                 Inr (set_histogram_model best_model wavelength_index
                        (update_object best_model (\<lambda>m. m\<lparr>h_flag := 0\<rparr>) st))
               else
                 (case h_best_fit_result (deref st lowest_aic_model) of
                    None \<Rightarrow> Inl AttributeError
                  | Some r \<Rightarrow>
                      Inr (set_histogram_model lowest_aic_model wavelength_index
                             (update_object lowest_aic_model
                                (\<lambda>m. m\<lparr>h_flag := (if \<not> success r then 6 else 7)\<rparr>) st)))))"

subsection \<open>\<^verbatim>\<open>Calibrator.fit_histograms\<close>, for one pixel\<close>

text \<open>
  \<^verbatim>\<open>
  for fit_index in range(self.cfg.histogram_fit_attempts):
      guess = model.guess(fit_index)
      model.fit(guess)
      if model.has_good_solution():
          tried_models.append(model.copy())
          break
  else:
      tried_models.append(model.copy())
      continue
  \<close>
  The fits with the model's own guesses stop at the first good one. Both ways out of the
  loop append a copy of the model, which the caller does.
\<close>

fun own_guess_fits :: "model_layer \<Rightarrow> nat list \<Rightarrow> nat \<Rightarrow> pixel_store \<Rightarrow> pixel_store" where
  "own_guess_fits layer [] model st = st"
| "own_guess_fits layer (fit_index # rest) model st =
     (let st1 = fit_model layer model (ml_guess layer (deref st model) (Some fit_index)) st
      in if has_good_solution (deref st1 model) then st1
         else own_guess_fits layer rest model st1)"

text \<open>
  The body of the loop over the configured model classes in the first pass, for one class:
  \<^verbatim>\<open>
  if not isinstance(model, histogram_model):
      model = self._update_histogram_model(wavelength, histogram_model, pixel)
  model.best_fit_result = None
  model.best_fit_result_good = None
  good_solutions = self.solution.has_good_histogram_solutions(pixel=pixel)
  if np.any(good_solutions):
      guess = self._guess(pixel, wavelength_index, good_solutions)
      model.fit(guess)
      if model.has_good_solution():
          tried_models.append(model.copy())
          continue
  for fit_index in range(self.cfg.histogram_fit_attempts): ...
  \<close>
  It returns the object \<^verbatim>\<open>model\<close> refers to afterwards, the copy appended to
  \<^verbatim>\<open>tried_models\<close>, and the store. \<open>isinstance\<close> is taken as equality of the class
  names.
\<close>

definition try_histogram_model ::
  "model_layer \<Rightarrow> configuration \<Rightarrow> nat \<Rightarrow> string \<Rightarrow> nat \<Rightarrow> pixel_store
     \<Rightarrow> py_error + nat \<times> nat \<times> pixel_store" where
  "try_histogram_model layer cfg wavelength_index cls model st =
     (let (model1, st1) =
            (if h_class (deref st model) \<noteq> cls
             then update_histogram_model layer wavelength_index cls st else (model, st));
          st2 = update_object model1 (\<lambda>m. m\<lparr>h_best_fit_result := None\<rparr>) st1;
          good_solutions = map has_good_solution (stored_models st2);
          attempts = [0..<cfg_histogram_fit_attempts cfg]
      in if list_ex (\<lambda>b. b) good_solutions then
           (case guess layer cfg st2 wavelength_index good_solutions of
              Inl e \<Rightarrow> Inl e
            | Inr g \<Rightarrow>
                (let st3 = fit_model layer model1 g st2
                 in if has_good_solution (deref st3 model1) then
                      (let (c, st4) = copy_model model1 st3 in Inr (model1, c, st4))
                    else
                      (let (c, st4) = copy_model model1 (own_guess_fits layer attempts model1 st3)
                       in Inr (model1, c, st4))))
         else
           (let (c, st4) = copy_model model1 (own_guess_fits layer attempts model1 st2)
            in Inr (model1, c, st4)))"

fun try_histogram_models ::
  "model_layer \<Rightarrow> configuration \<Rightarrow> nat \<Rightarrow> string list \<Rightarrow> nat \<Rightarrow> nat list \<Rightarrow> pixel_store
     \<Rightarrow> py_error + nat list \<times> pixel_store" where
  "try_histogram_models layer cfg wavelength_index [] model tried_models st = Inr (tried_models, st)"
| "try_histogram_models layer cfg wavelength_index (cls # rest) model tried_models st =
     (case try_histogram_model layer cfg wavelength_index cls model st of
        Inl e \<Rightarrow> Inl e
      | Inr (model1, c, st1) \<Rightarrow>
          try_histogram_models layer cfg wavelength_index rest model1 (tried_models @ [c]) st1)"

text \<open>
  The body of the first loop over the wavelengths. \<open>models\<close> is the array
  \<^verbatim>\<open>models = self.solution.histogram_models(wavelengths, pixel=pixel)\<close> taken before the
  loop: the addresses the stored array held then.
  \<^verbatim>\<open>
  model = models[index]
  if model.x is None or model.y is None: continue
  if len(model.x) < model.max_parameters * 2:
      model.flag = 5
      continue
  tried_models = []
  for histogram_model in self.solution.histogram_model_list: ...
  self._assign_best_histogram_model(tried_models, wavelength, pixel)
  \<close>
\<close>

definition fit_wavelength ::
  "model_layer \<Rightarrow> configuration \<Rightarrow> nat list \<Rightarrow> nat \<Rightarrow> pixel_store \<Rightarrow> py_error + pixel_store" where
  "fit_wavelength layer cfg models index st =
     (let model = models ! index in
      case h_x (deref st model) of
        None \<Rightarrow> Inr st
      | Some xs \<Rightarrow>
          (case h_y (deref st model) of
             None \<Rightarrow> Inr st
           | Some ys \<Rightarrow>
               if length xs < ml_max_parameters layer (h_class (deref st model)) * 2
               then Inr (update_object model (\<lambda>m. m\<lparr>h_flag := 5\<rparr>) st)
               else
                 (case try_histogram_models layer cfg index (cfg_histogram_model_names cfg)
                         model [] st of
                    Inl e \<Rightarrow> Inl e
                  | Inr (tried_models, st1) \<Rightarrow>
                      assign_best_histogram_model tried_models index st1)))"

text \<open>
  The loop over the model classes in the second pass:
  \<^verbatim>\<open>
  for histogram_model in self.solution.histogram_model_list:
      if not isinstance(model, histogram_model):
          model = self._update_histogram_model(wavelength, histogram_model, pixel)
      guess = self._guess(pixel, wavelength_index, good_solutions)
      model.fit(guess)
      if model.has_good_solution():
          break
      tried_models.append(model.copy())
  else:
      self._assign_best_histogram_model(tried_models, wavelength, pixel)
  \<close>
  The result says whether the loop was left by \<^verbatim>\<open>break\<close>.
\<close>

fun retry_histogram_models ::
  "model_layer \<Rightarrow> configuration \<Rightarrow> nat \<Rightarrow> bool list \<Rightarrow> string list \<Rightarrow> nat \<Rightarrow> nat list
     \<Rightarrow> pixel_store \<Rightarrow> py_error + bool \<times> nat list \<times> pixel_store" where
  "retry_histogram_models layer cfg wavelength_index good_solutions [] model tried_models st =
     Inr (False, tried_models, st)"
| "retry_histogram_models layer cfg wavelength_index good_solutions (cls # rest) model tried_models st =
     (case (if h_class (deref st model) \<noteq> cls
            then update_histogram_model layer wavelength_index cls st else (model, st)) of
        (model1, st1) \<Rightarrow>
          (case guess layer cfg st1 wavelength_index good_solutions of
             Inl e \<Rightarrow> Inl e
           | Inr g \<Rightarrow>
               (let st2 = fit_model layer model1 g st1
                in if has_good_solution (deref st2 model1) then Inr (True, tried_models, st2)
                   else
                     (case copy_model model1 st2 of
                        (c, st3) \<Rightarrow>
                          retry_histogram_models layer cfg wavelength_index good_solutions rest
                            model1 (tried_models @ [c]) st3))))"

text \<open>
  The body of the second loop over the wavelengths; \<open>good_solutions\<close> is taken once,
  before the loop, and \<open>models\<close> is still the array taken before the first loop.
  \<^verbatim>\<open>
  model = models[index]
  if model.x is None or model.y is None: continue
  if model.has_good_solution(): continue
  if np.any(good_solutions[wavelength_index + 1:]): ...
  \<close>
\<close>

definition refit_wavelength ::
  "model_layer \<Rightarrow> configuration \<Rightarrow> nat list \<Rightarrow> bool list \<Rightarrow> nat \<Rightarrow> pixel_store
     \<Rightarrow> py_error + pixel_store" where
  "refit_wavelength layer cfg models good_solutions index st =
     (let model = models ! index in
      if h_x (deref st model) = None \<or> h_y (deref st model) = None then Inr st
      else if has_good_solution (deref st model) then Inr st
      else if list_ex (\<lambda>b. b) (drop (Suc index) good_solutions) then
        (case retry_histogram_models layer cfg index good_solutions
                (cfg_histogram_model_names cfg) model [] st of
           Inl e \<Rightarrow> Inl e
         | Inr (left_by_break, tried_models, st1) \<Rightarrow>
             if left_by_break then Inr st1
             else assign_best_histogram_model tried_models index st1)
      else Inr st)"

fun for_each ::
  "(nat \<Rightarrow> pixel_store \<Rightarrow> py_error + pixel_store) \<Rightarrow> nat list \<Rightarrow> pixel_store
     \<Rightarrow> py_error + pixel_store" where
  "for_each body [] st = Inr st"
| "for_each body (index # rest) st =
     (case body index st of Inl e \<Rightarrow> Inl e | Inr st1 \<Rightarrow> for_each body rest st1)"

text \<open>\<^verbatim>\<open>fit_histograms\<close> for one pixel and all configured wavelengths (the call with
  \<^verbatim>\<open>wavelengths=None\<close>), the wavelengths being distinct: the index of a wavelength in
  the loop is its index in the configuration.\<close>

definition fit_histograms :: "model_layer \<Rightarrow> configuration \<Rightarrow> pixel_store \<Rightarrow> py_error + pixel_store" where
  "fit_histograms layer cfg st =
     (let models = histograms st;
          indices = [0..<length (cfg_wavelengths cfg)]
      in case for_each (fit_wavelength layer cfg models) indices st of
           Inl e \<Rightarrow> Inl e
         | Inr st1 \<Rightarrow>
             for_each
               (refit_wavelength layer cfg models (map has_good_solution (stored_models st1)))
               indices st1)"

subsection \<open>Example inputs\<close>

text \<open>A model as it is before any histogram is made (no data, no fit), and a configuration
  with one histogram model class; both are used to run the definitions on concrete inputs.\<close>

definition example_model :: histogram_model where
  "example_model = \<lparr>h_class = ''GaussianAndExponential'', h_pixel = (0, 0), h_res_id = 0,
     h_flag = 0, h_x = None, h_y = None, h_variance = None, h_best_fit_result = None\<rparr>"

definition example_cfg :: configuration where
  "example_cfg = \<lparr>cfg_wavelengths = [800, 900], cfg_bin_width = 1, cfg_dt = 7,
     cfg_histogram_fit_attempts = 1,
     cfg_histogram_model_names = [''GaussianAndExponential''],
     cfg_calibration_model_names = [''Quadratic'']\<rparr>"

text \<open>A calibration model without data, a model layer whose calibration fits all succeed
  (the quadratic one with the lower AIC), histogram models holding a good fit with a given
  center, standard error of the center and sigma, and a configuration with three
  wavelengths and two calibration model classes.\<close>

definition example_calibration :: calibration_model where
  "example_calibration = \<lparr>c_class = ''Linear'', c_pixel = (0, 0), c_res_id = 0, c_flag = 0,
     c_x = None, c_y = None, c_variance = None, c_min_x = None, c_max_x = None,
     c_best_fit_result = None\<rparr>"

definition example_calibration_layer :: calibration_layer where
  "example_calibration_layer =
     \<lparr>cl_new = (\<lambda>cls pixel res_id. example_calibration\<lparr>c_class := cls, c_pixel := pixel, c_res_id := res_id\<rparr>),
      cl_fit = (\<lambda>m. \<lparr>aic = (if c_class m = ''Quadratic'' then 1 else 2), success = True, good = True\<rparr>)\<rparr>"

definition example_fit :: "real \<Rightarrow> real \<Rightarrow> real \<Rightarrow> histogram_fit" where
  "example_fit center stderr sigma =
     \<lparr>aic = 0, success = True, good = True, fit_params = [],
      signal_center_value = center, signal_center_stderr = stderr, signal_sigma_value = sigma\<rparr>"

definition example_fitted :: "real \<Rightarrow> real \<Rightarrow> real \<Rightarrow> histogram_model" where
  "example_fitted center stderr sigma =
     example_model\<lparr>h_best_fit_result := Some (example_fit center stderr sigma)\<rparr>"

definition example_cfg3 :: configuration where
  "example_cfg3 = \<lparr>cfg_wavelengths = [800, 900, 1000], cfg_bin_width = 1, cfg_dt = 7,
     cfg_histogram_fit_attempts = 1,
     cfg_histogram_model_names = [''GaussianAndExponential''],
     cfg_calibration_model_names = [''Linear'', ''Quadratic'']\<rparr>"

text \<open>A tried model of a class with a fit result of a given AIC, convergence and goodness.
  A model layer with one parameter set as its own guess (signal center 0), whose fit
  fails validation for the data of the first wavelength when started from that guess and
  is good otherwise; and a pixel with histograms at two wavelengths.\<close>

definition example_tried :: "string \<Rightarrow> real \<Rightarrow> bool \<Rightarrow> bool \<Rightarrow> histogram_model" where
  "example_tried cls a converged is_good =
     example_model\<lparr>h_class := cls, h_x := Some [-3, -2, -1], h_y := Some [1, 2, 3],
       h_best_fit_result := Some \<lparr>aic = a, success = converged, good = is_good, fit_params = [],
         signal_center_value = -2, signal_center_stderr = 1, signal_sigma_value = 1\<rparr>\<rparr>"

definition example_layer :: model_layer where
  "example_layer =
     \<lparr>ml_new = (\<lambda>cls pixel res_id. example_model\<lparr>h_class := cls, h_pixel := pixel, h_res_id := res_id\<rparr>),
      ml_max_parameters = (\<lambda>cls. 1),
      ml_signal_center_name = (\<lambda>cls. ''signal_center''),
      ml_guess = (\<lambda>m index. [(''signal_center'', 0), (''signal_sigma'', 1)]),
      ml_fit = (\<lambda>m g.
         \<lparr>aic = 10, success = True,
          good = (\<not> (h_x m = Some [-120, -110] \<and> map_of g ''signal_center'' = Some 0)),
          fit_params = g,
          signal_center_value = (case h_x m of Some (v # vs) \<Rightarrow> v | _ \<Rightarrow> 0),
          signal_center_stderr = 1, signal_sigma_value = 4\<rparr>)\<rparr>"

definition example_store :: pixel_store where
  "example_store =
     \<lparr>heap = [example_model\<lparr>h_x := Some [-120, -110], h_y := Some [5, 7], h_variance := Some [5, 7]\<rparr>,
              example_model\<lparr>h_x := Some [-100, -90], h_y := Some [6, 8], h_variance := Some [6, 8]\<rparr>],
      histograms = [0, 1]\<rparr>"

section \<open>Properties\<close>

subsection \<open>Removing tail-riding photons\<close>

lemma length_np_diff: "length (np_diff xs) = length xs - 1"
  by (induction xs rule: np_diff.induct) auto

lemma nth_np_diff: "Suc i < length xs \<Longrightarrow> np_diff xs ! i = xs ! Suc i - xs ! i"
proof (induction xs arbitrary: i rule: np_diff.induct)
  case (1 a b xs)
  then show ?case by (cases i) auto
qed auto

lemma mask_select:
  "length s = length l \<Longrightarrow>
   map fst (filter snd (zip s l)) = map ((!) s) (filter (\<lambda>i. l ! i) [0..<length s])"
proof (induction s l rule: list_induct2)
  case Nil
  then show ?case by simp
next
  case (Cons x xs y ys)
  have upt: "[0..<length (x # xs)] = 0 # map Suc [0..<length xs]"
    by (simp add: upt_conv_Cons map_Suc_upt del: upt_Suc)
  show ?case
    unfolding upt using Cons.IH by (simp add: filter_map comp_def)
qed

lemma length_tail_logic: "s \<noteq> [] \<Longrightarrow> length (tail_logic dt s) = length s"
  by (cases s) (simp_all add: tail_logic_def length_np_diff)

lemma nth_tail_logic:
  assumes "i < length s"
  shows "tail_logic dt s ! i = (i = 0 \<or> real_of_int (Time (s ! i) - Time (s ! (i - 1))) > dt)"
proof (cases i)
  case 0
  then show ?thesis by (simp add: tail_logic_def)
next
  case (Suc j)
  with assms have "Suc j < length (map Time s)" by simp
  then have "np_diff (map Time s) ! j = map Time s ! Suc j - map Time s ! j"
    by (rule nth_np_diff)
  moreover have "j < length (np_diff (map Time s))"
    using assms Suc by (simp add: length_np_diff)
  ultimately show ?thesis using Suc assms by (simp add: tail_logic_def)
qed

lemma sort_key_nonempty: "xs \<noteq> [] \<Longrightarrow> sort_key f xs \<noteq> []"
  by (metis length_sort length_0_conv)

lemma remove_tail_riding_kept:
  assumes "photon_list \<noteq> []"
  shows "remove_tail_riding_photons dt photon_list =
     Inr (map ((!) (sort_key Time photon_list)) (kept_positions dt (sort_key Time photon_list)))"
proof -
  let ?s = "sort_key Time photon_list"
  have ne: "?s \<noteq> []" using assms by (rule sort_key_nonempty)
  have len: "length ?s = length (tail_logic dt ?s)" using ne by (simp add: length_tail_logic)
  have "filter (\<lambda>i. tail_logic dt ?s ! i) [0..<length ?s] = kept_positions dt ?s"
    unfolding kept_positions_def by (rule filter_cong) (simp_all add: nth_tail_logic)
  then show ?thesis
    using len mask_select[OF len]
    by (simp add: remove_tail_riding_photons_def bool_index_def Let_def)
qed

lemma remove_tail_riding_head:
  assumes "photon_list \<noteq> []"
  shows "\<exists>rest. remove_tail_riding_photons dt photon_list = Inr (hd (sort_key Time photon_list) # rest)"
proof -
  obtain p ps where s: "sort_key Time photon_list = p # ps"
    using sort_key_nonempty[OF assms, of Time] by (cases "sort_key Time photon_list") auto
  have "length (tail_logic dt (p # ps)) = length (p # ps)"
    by (rule length_tail_logic) simp
  then show ?thesis
    by (simp add: remove_tail_riding_photons_def bool_index_def s tail_logic_def)
qed

lemma sorted_head_least:
  assumes "photon_list \<noteq> []" "q \<in> set photon_list"
  shows "Time (hd (sort_key Time photon_list)) \<le> Time q"
proof -
  obtain p ps where s: "sort_key Time photon_list = p # ps"
    using sort_key_nonempty[OF assms(1), of Time] by (cases "sort_key Time photon_list") auto
  have "sorted (map Time (p # ps))" using sorted_sort_key[of Time photon_list] s by simp
  moreover have "q \<in> set (p # ps)" using assms(2) s set_sort[of Time photon_list] by simp
  ultimately show ?thesis using s by auto
qed

lemma sorted_head_member:
  assumes "photon_list \<noteq> []"
  shows "hd (sort_key Time photon_list) \<in> set photon_list"
proof -
  have "hd (sort_key Time photon_list) \<in> set (sort_key Time photon_list)"
    using sort_key_nonempty[OF assms, of Time] by (rule hd_in_set)
  then show ?thesis by simp
qed

lemma make_histogram_flag3:
  assumes "h_flag model \<noteq> 3" "make_histogram cfg photon_list model = Inr model'"
  shows "h_flag model' \<noteq> 3"
proof (cases "length photon_list < 2")
  case True
  then show ?thesis using assms by (auto simp: make_histogram_def)
next
  case False
  then have ne: "photon_list \<noteq> []" by auto
  obtain rest where k: "remove_tail_riding_photons (cfg_dt cfg) photon_list =
      Inr (hd (sort_key Time photon_list) # rest)"
    using remove_tail_riding_head[OF ne] by blast
  show ?thesis using assms False
    by (auto simp: make_histogram_def k Let_def split: if_splits sum.splits option.splits)
qed

text \<open>
  Claim C2, as amended. The photon list is sorted by arrival time, and an event is kept
  exactly when it is the first of the sorted list or its time gap to the event just before
  it in the sorted list (kept or not) exceeds \<open>dt\<close>.
\<close>

theorem remove_tail_riding_previous_event:
  assumes "photon_list \<noteq> []"
  shows "remove_tail_riding_photons dt photon_list =
           Inr (map ((!) (sort_key Time photon_list))
                  (kept_positions dt (sort_key Time photon_list))) \<and>
         sorted (map Time (sort_key Time photon_list)) \<and>
         mset (sort_key Time photon_list) = mset photon_list"
  using remove_tail_riding_kept[OF assms] by simp

theorem remove_tail_riding_previous_event_witness:
  "[\<lparr>Time = 10, Wavelength = -3\<rparr>, \<lparr>Time = 0, Wavelength = -1\<rparr>, \<lparr>Time = 5, Wavelength = -2\<rparr>] \<noteq> [] \<and>
   remove_tail_riding_photons 7
     [\<lparr>Time = 10, Wavelength = -3\<rparr>, \<lparr>Time = 0, Wavelength = -1\<rparr>, \<lparr>Time = 5, Wavelength = -2\<rparr>] =
     Inr [\<lparr>Time = 0, Wavelength = -1\<rparr>] \<and>
   remove_tail_riding_photons 4
     [\<lparr>Time = 10, Wavelength = -3\<rparr>, \<lparr>Time = 0, Wavelength = -1\<rparr>, \<lparr>Time = 5, Wavelength = -2\<rparr>] =
     Inr [\<lparr>Time = 0, Wavelength = -1\<rparr>, \<lparr>Time = 5, Wavelength = -2\<rparr>, \<lparr>Time = 10, Wavelength = -3\<rparr>]"
  using remove_tail_riding_previous_event
          [of "[\<lparr>Time = 10, Wavelength = -3\<rparr>, \<lparr>Time = 0, Wavelength = -1\<rparr>, \<lparr>Time = 5, Wavelength = -2\<rparr>]" 7]
        remove_tail_riding_previous_event
          [of "[\<lparr>Time = 10, Wavelength = -3\<rparr>, \<lparr>Time = 0, Wavelength = -1\<rparr>, \<lparr>Time = 5, Wavelength = -2\<rparr>]" 4]
  by (simp add: kept_positions_def)

text \<open>
  Claim C2 as stated fails: with \<open>dt = 7\<close> and events at the times 0, 5 and 10, the event
  at 10 is 10 ticks after the previous kept event (the one at 0), so the rule as stated
  keeps it; the code compares it with the event at 5 and removes it.
\<close>

theorem remove_tail_riding_kept_event_counterexample:
  "remove_tail_riding_photons 7
     [\<lparr>Time = 0, Wavelength = -1\<rparr>, \<lparr>Time = 5, Wavelength = -2\<rparr>, \<lparr>Time = 10, Wavelength = -3\<rparr>] =
     Inr [\<lparr>Time = 0, Wavelength = -1\<rparr>] \<and>
   spec_remove_tail_riding 7
     [\<lparr>Time = 0, Wavelength = -1\<rparr>, \<lparr>Time = 5, Wavelength = -2\<rparr>, \<lparr>Time = 10, Wavelength = -3\<rparr>] =
     [\<lparr>Time = 0, Wavelength = -1\<rparr>, \<lparr>Time = 10, Wavelength = -3\<rparr>]"
  by (simp add: remove_tail_riding_photons_def bool_index_def tail_logic_def
        spec_remove_tail_riding_def)

text \<open>
  Claim C10. On a non-empty photon list the removal returns a non-empty list whose first
  entry is an event of the input with the least arrival time. So \<open>make_histogram\<close> never
  sets flag 3: a model whose flag is not 3 before the call does not have flag 3 after it.
\<close>

theorem tail_riding_keeps_earliest:
  "(photon_list \<noteq> [] \<longrightarrow>
      (\<exists>kept. remove_tail_riding_photons dt photon_list = Inr kept \<and> kept \<noteq> [] \<and>
         hd kept \<in> set photon_list \<and> (\<forall>q \<in> set photon_list. Time (hd kept) \<le> Time q))) \<and>
   (h_flag model \<noteq> 3 \<and> make_histogram cfg photon_list model = Inr model' \<longrightarrow> h_flag model' \<noteq> 3)"
proof (intro conjI impI)
  assume ne: "photon_list \<noteq> []"
  then obtain rest where
    "remove_tail_riding_photons dt photon_list = Inr (hd (sort_key Time photon_list) # rest)"
    using remove_tail_riding_head by blast
  then show "\<exists>kept. remove_tail_riding_photons dt photon_list = Inr kept \<and> kept \<noteq> [] \<and>
         hd kept \<in> set photon_list \<and> (\<forall>q \<in> set photon_list. Time (hd kept) \<le> Time q)"
    using sorted_head_least[OF ne] sorted_head_member[OF ne] by auto
next
  assume "h_flag model \<noteq> 3 \<and> make_histogram cfg photon_list model = Inr model'"
  then show "h_flag model' \<noteq> 3" using make_histogram_flag3 by blast
qed

theorem tail_riding_keeps_earliest_witness:
  "[\<lparr>Time = 0, Wavelength = 1\<rparr>, \<lparr>Time = 10000, Wavelength = 2\<rparr>] \<noteq> [] \<and>
   remove_tail_riding_photons 7 [\<lparr>Time = 0, Wavelength = 1\<rparr>, \<lparr>Time = 10000, Wavelength = 2\<rparr>] =
     Inr [\<lparr>Time = 0, Wavelength = 1\<rparr>, \<lparr>Time = 10000, Wavelength = 2\<rparr>] \<and>
   h_flag example_model \<noteq> 3 \<and>
   make_histogram example_cfg [\<lparr>Time = 0, Wavelength = 1\<rparr>, \<lparr>Time = 10000, Wavelength = 2\<rparr>]
     example_model = Inr (example_model\<lparr>h_flag := 4\<rparr>)"
  using tail_riding_keeps_earliest
          [of "[\<lparr>Time = 0, Wavelength = 1\<rparr>, \<lparr>Time = 10000, Wavelength = 2\<rparr>]" 7
              example_model example_cfg "example_model\<lparr>h_flag := 4\<rparr>"]
  by (simp add: make_histogram_def too_hot_def remove_tail_riding_photons_def bool_index_def
        tail_logic_def example_model_def example_cfg_def)

subsection \<open>Making the histograms\<close>

lemma make_histogram_short:
  "length photon_list < 2 \<Longrightarrow> make_histogram cfg photon_list model = Inr (model\<lparr>h_flag := 1\<rparr>)"
  by (simp add: make_histogram_def)

lemma make_histograms_nth:
  assumes "make_histograms cfg pls ms = Inr ms'" "i < length pls" "i < length ms"
  shows "i < length ms' \<and> make_histogram cfg (pls ! i) (ms ! i) = Inr (ms' ! i)"
  using assms
proof (induction cfg pls ms arbitrary: ms' i rule: make_histograms.induct)
  case (1 cfg pl pls m ms)
  then show ?case
    by (cases i) (auto split: sum.splits)
qed auto

text \<open>
  Claim C7. A photon list with fewer than 2 events makes \<open>make_histogram\<close> return the
  model with flag 1 and nothing else changed (no exception): its \<open>x\<close>, \<open>y\<close> and variance
  are what they were, so a model that had no data (the state in which a model is created)
  still has none. The same holds for every such wavelength of a pixel when
  \<open>make_histograms\<close> goes through the wavelengths.
\<close>

theorem make_histograms_no_photons:
  "(length photon_list < 2 \<longrightarrow>
      make_histogram cfg photon_list model = Inr (model\<lparr>h_flag := 1\<rparr>)) \<and>
   (make_histograms cfg pls ms = Inr ms' \<and> i < length pls \<and> i < length ms \<and> length (pls ! i) < 2 \<longrightarrow>
      i < length ms' \<and> h_flag (ms' ! i) = 1 \<and> h_x (ms' ! i) = h_x (ms ! i) \<and>
      h_y (ms' ! i) = h_y (ms ! i) \<and> h_variance (ms' ! i) = h_variance (ms ! i))"
proof (intro conjI impI)
  assume "length photon_list < 2"
  then show "make_histogram cfg photon_list model = Inr (model\<lparr>h_flag := 1\<rparr>)"
    by (rule make_histogram_short)
next
  assume a: "make_histograms cfg pls ms = Inr ms' \<and> i < length pls \<and> i < length ms \<and> length (pls ! i) < 2"
  then have n: "i < length ms'" and "make_histogram cfg (pls ! i) (ms ! i) = Inr (ms' ! i)"
    using make_histograms_nth[of cfg pls ms ms' i] by auto
  then have eq: "ms' ! i = (ms ! i)\<lparr>h_flag := 1\<rparr>"
    using a make_histogram_short[of "pls ! i" cfg "ms ! i"] by simp
  show "i < length ms'" by (rule n)
  show "h_flag (ms' ! i) = 1" by (simp add: eq)
  show "h_x (ms' ! i) = h_x (ms ! i)" by (simp add: eq)
  show "h_y (ms' ! i) = h_y (ms ! i)" by (simp add: eq)
  show "h_variance (ms' ! i) = h_variance (ms ! i)" by (simp add: eq)
qed

theorem make_histograms_no_photons_witness:
  "length [\<lparr>Time = 3, Wavelength = -1\<rparr>] < 2 \<and>
   make_histogram example_cfg [\<lparr>Time = 3, Wavelength = -1\<rparr>] example_model =
     Inr (example_model\<lparr>h_flag := 1\<rparr>) \<and>
   make_histograms example_cfg [[], [\<lparr>Time = 3, Wavelength = -1\<rparr>]] [example_model, example_model] =
     Inr [example_model\<lparr>h_flag := 1\<rparr>, example_model\<lparr>h_flag := 1\<rparr>] \<and>
   (1::nat) < length [[], [\<lparr>Time = 3, Wavelength = -1\<rparr>]] \<and>
   h_flag ([example_model\<lparr>h_flag := 1\<rparr>, example_model\<lparr>h_flag := 1\<rparr>] ! 1) = 1 \<and>
   h_x ([example_model\<lparr>h_flag := 1\<rparr>, example_model\<lparr>h_flag := 1\<rparr>] ! 1) = None \<and>
   h_y ([example_model\<lparr>h_flag := 1\<rparr>, example_model\<lparr>h_flag := 1\<rparr>] ! 1) = None"
  using make_histograms_no_photons
          [of "[\<lparr>Time = 3, Wavelength = -1\<rparr>]" example_cfg example_model
              "[[], [\<lparr>Time = 3, Wavelength = -1\<rparr>]]" "[example_model, example_model]"
              "[example_model\<lparr>h_flag := 1\<rparr>, example_model\<lparr>h_flag := 1\<rparr>]" 1]
  by (simp add: make_histogram_def example_model_def)

subsection \<open>The bin-width loop\<close>

declare histogram_loop.simps [simp del]













subsection \<open>Fitting the calibration\<close>














lemma good_fits_example: "good_fits [800, 900, 1000] [example_fitted (-100) 1 4, example_fitted (-80) 1 4, example_fitted (-60) 1 4]
   = [(800, example_fit (-100) 1 4), (900, example_fit (-80) 1 4), (1000, example_fit (-60) 1 4)]"
  by (simp add: good_fits_def example_fitted_def example_fit_def List.map_filter_simps)

text \<open>
  Claim C5 on a concrete pixel: three good histogram fits with the centers \<open>-100\<close>,
  \<open>-80\<close>, \<open>-60\<close> and sigma 4 each. Three sigmas beyond the extreme points would be the
  domain from \<open>-112\<close> to \<open>-48\<close>; the stored calibration model has the domain from
  \<open>-106\<close> to \<open>-54\<close>, three times the square root of sigma beyond them.
\<close>

theorem calibration_domain_sqrt_sigma:
  "\<exists>m. fit_calibration example_calibration_layer 1240 example_cfg3
      [example_fitted (-100) 1 4, example_fitted (-80) 1 4, example_fitted (-60) 1 4]
      example_calibration = Inr m \<and>
    c_x m = Some [-100, -80, -60] \<and>
    c_min_x m = Some (-106) \<and> c_max_x m = Some (-54) \<and>
    c_min_x m \<noteq> Some (-100 - 3 * 4) \<and> c_max_x m \<noteq> Some (-60 + 3 * 4)"
  by (simp add: fit_calibration_def example_cfg3_def good_fits_example calibration_phases_def
        calibration_variance_def calibration_energies_def calibration_sigmas_def give_data_def
        np_argmin_def np_argmax_def example_fit_def flag_not_monotonic_def
        update_calibration_model_def example_calibration_layer_def example_calibration_def
        assign_best_calibration_model_def has_good_calibration_def Let_def)

subsection \<open>Selecting and storing histogram models\<close>

text \<open>
  Claim C1 on concrete inputs. First: two tried models, the first converged but not good
  with AIC 1, the second good with AIC 5. A tried model has a good fit, yet the first
  model is stored, with flag 7. Second: three tried models without a good fit and the
  AICs 10, 5 and 7; the model stored as the one of lowest AIC is the third (every AIC is
  compared with that of the first model), with flag 6.
\<close>

theorem assign_best_misses_good_model:
  "assign_best_histogram_model [1, 2] 0
     \<lparr>heap = [example_model, example_tried ''A'' 1 True False, example_tried ''B'' 5 True True],
      histograms = [0]\<rparr> =
   Inr \<lparr>heap = [example_model, (example_tried ''A'' 1 True False)\<lparr>h_flag := 7\<rparr>,
               example_tried ''B'' 5 True True],
        histograms = [1]\<rparr> \<and>
   assign_best_histogram_model [1, 2, 3] 0
     \<lparr>heap = [example_model, example_tried ''A'' 10 True False, example_tried ''B'' 5 True False,
              example_tried ''C'' 7 False False],
      histograms = [0]\<rparr> =
   Inr \<lparr>heap = [example_model, example_tried ''A'' 10 True False, example_tried ''B'' 5 True False,
               (example_tried ''C'' 7 False False)\<lparr>h_flag := 6\<rparr>],
        histograms = [3]\<rparr>"
  by (simp add: assign_best_histogram_model_def has_good_solution_def example_tried_def deref_def
        set_histogram_model_def update_object_def)

text \<open>
  Claim C3 on a concrete pixel: two wavelengths, one configured model class. The first pass
  stores a model without good fit for the first wavelength and a good one for the second
  (the stored objects are the copies at the addresses 2 and 3). In the second pass the
  retry for the first wavelength fits the object at address 0, the one the array taken
  before the first pass refers to; the fit is good and the loop is left by \<^verbatim>\<open>break\<close>,
  but the model stored for the first wavelength is still the object at address 2, without
  a good fit: the successful fit is not stored.
\<close>

theorem retry_good_fit_not_stored:
  "(case for_each (fit_wavelength example_layer example_cfg [0, 1]) [0, 1] example_store of
      Inl e \<Rightarrow> False
    | Inr st1 \<Rightarrow>
        histograms st1 = [2, 3] \<and>
        map has_good_solution (stored_models st1) = [False, True] \<and>
        \<not> has_good_solution (deref st1 0) \<and>
        (case retry_histogram_models example_layer example_cfg 0 [False, True]
                (cfg_histogram_model_names example_cfg) 0 [] st1 of
           Inl e \<Rightarrow> False
         | Inr (left_by_break, tried_models, st2) \<Rightarrow>
             left_by_break \<and> has_good_solution (deref st2 0) \<and> histograms st2 = [2, 3] \<and>
             \<not> has_good_solution (deref st2 2) \<and> h_flag (deref st2 2) = 7 \<and>
             fit_histograms example_layer example_cfg example_store = Inr st2))"
  by code_simp

end
